theory Spec2Isabelle
  imports Main "HOL-Library.Multiset"
begin

section \<open>Python strings\<close>

text \<open>
  The two programs, \<^verbatim>\<open>Main.py\<close> and \<^verbatim>\<open>Main2.py\<close>, build every text they return
  with f-strings. A string is a \<^typ>\<open>string\<close>; the line feed and the apostrophe,
  which cannot stand inside a literal, are named.
\<close>

abbreviation nl :: string where
  "nl \<equiv> [CHR 0x0A]"

abbreviation apos :: string where
  "apos \<equiv> [CHR 0x27]"

text \<open>\<^verbatim>\<open>f"{n}"\<close> of a non-negative integer: its decimal digits.\<close>

fun str_nat :: "nat \<Rightarrow> string" where
  "str_nat n =
     (if n < 10 then [''0123456789'' ! n]
      else str_nat (n div 10) @ [''0123456789'' ! (n mod 10)])"

declare str_nat.simps [simp del]

text \<open>\<^verbatim>\<open>sep.join(xs)\<close>.\<close>

fun join :: "string \<Rightarrow> string list \<Rightarrow> string" where
  "join sep [] = []"
| "join sep [x] = x"
| "join sep (x # y # ys) = x @ sep @ join sep (y # ys)"

text \<open>
  \<^verbatim>\<open>f"{v}"\<close> of the value of a nullable text column: Python renders the missing
  value as \<^verbatim>\<open>None\<close>.
\<close>

definition str_opt :: "string option \<Rightarrow> string" where
  "str_opt v = (case v of None \<Rightarrow> ''None'' | Some s \<Rightarrow> s)"

text \<open>\<^verbatim>\<open>p in s\<close> for two strings: \<open>p\<close> occurs in \<open>s\<close> as a substring.\<close>

fun str_in :: "string \<Rightarrow> string \<Rightarrow> bool" where
  "str_in p [] = (p = [])"
| "str_in p (c # s) = (take (length p) (c # s) = p \<or> str_in p s)"


section \<open>Database models\<close>

text \<open>
  The tables \<^verbatim>\<open>Character\<close> and \<^verbatim>\<open>Conversation\<close>, the same in both programs. The
  primary keys, both called \<^verbatim>\<open>id\<close> in the source, are \<open>char_id\<close> and \<open>conv_id\<close> here.
  A column declared \<^verbatim>\<open>nullable=True\<close> holds an option. The column \<^verbatim>\<open>timestamp\<close> is
  filled by its default \<^verbatim>\<open>datetime.utcnow\<close> on every insert the programs make, so
  it always holds a time: a number of microseconds, say, ordered as times are.
  A table is the list of its rows in insertion order.
\<close>

record character =
  char_id :: nat
  name :: string
  description :: string
  prompt_template :: string

record conversation =
  conv_id :: nat
  character_id :: nat
  user_input :: "string option"
  bot_response :: string
  timestamp :: nat
  chat_id :: "string option"
  user_id :: int

record database =
  characters :: "character list"
  conversations :: "conversation list"

definition empty_db :: database where
  "empty_db = \<lparr>characters = [], conversations = []\<rparr>"

text \<open>
  The integer primary key the store assigns to a new row: one more than the largest
  key of the table (SQLite, the default \<^verbatim>\<open>DATABASE_URL\<close>).
\<close>

definition next_id :: "nat list \<Rightarrow> nat" where
  "next_id ids = Suc (fold max ids 0)"

text \<open>\<^verbatim>\<open>Character.query.filter_by(name=n).first()\<close>\<close>

definition character_by_name :: "database \<Rightarrow> string \<Rightarrow> character option" where
  "character_by_name db n = find (\<lambda>ch. name ch = n) (characters db)"

text \<open>\<^verbatim>\<open>Character.query.get(i)\<close>\<close>

definition character_by_id :: "database \<Rightarrow> nat \<Rightarrow> character option" where
  "character_by_id db i = find (\<lambda>ch. char_id ch = i) (characters db)"

definition insert_character :: "database \<Rightarrow> string \<Rightarrow> string \<Rightarrow> string \<Rightarrow> database" where
  "insert_character db n d p =
     db\<lparr>characters := characters db @
        [\<lparr>char_id = next_id (map char_id (characters db)),
          name = n, description = d, prompt_template = p\<rparr>]\<rparr>"


section \<open>Creating characters\<close>

text \<open>
  \<^verbatim>\<open>add_character\<close> (Main.py 89-108, Main2.py 91-110) returns the message shown to
  the user; the model returns the store next to it. The three arguments are the
  contents of three text boxes, so they are strings, possibly empty. The handler
  of the \<^verbatim>\<open>try\<close> runs only when the store itself fails, which is outside the model.
\<close>

definition add_character :: "database \<Rightarrow> string \<Rightarrow> string \<Rightarrow> string \<Rightarrow> string \<times> database" where
  "add_character db n d p =
     (case character_by_name db n of
        Some _ \<Rightarrow> (''Character '' @ apos @ n @ apos @ '' already exists!'', db)
      | None \<Rightarrow>
          (''Character '' @ apos @ n @ apos @ '' added successfully!'' @ nl @
             ''Description: '' @ d,
           insert_character db n d p))"

text \<open>\<^verbatim>\<open>add_predefined_characters\<close> (Main.py 53-87): the three personas, each added unless its name is stored.\<close>

definition predefined :: "(string \<times> string \<times> string) list" where
  "predefined =
     [(''Chuck the Clown'',
       ''A funny clown who tells jokes and entertains.'',
       ''You are Chuck the Clown, always ready with a joke and entertainment. Be upbeat, silly, and include jokes in your responses.''),
      (''Sarcastic Pirate'',
       ''A pirate with a sharp tongue and a love for treasure.'',
       ''You are a Sarcastic Pirate, ready to share your tales of adventure. Use pirate slang, be witty, sarcastic, and mention your love for treasure and the sea.''),
      (''Professor Sage'',
       ''A wise professor knowledgeable about many subjects.'',
       ''You are Professor Sage, sharing wisdom and knowledge. Be scholarly, thoughtful, and provide educational information in your responses.'')]"

definition add_if_absent :: "string \<times> string \<times> string \<Rightarrow> database \<Rightarrow> database" where
  "add_if_absent char_data db =
     (case char_data of (n, d, p) \<Rightarrow>
        (case character_by_name db n of
           Some _ \<Rightarrow> db
         | None \<Rightarrow> insert_character db n d p))"

definition add_predefined_characters :: "database \<Rightarrow> database" where
  "add_predefined_characters db = fold add_if_absent predefined db"

text \<open>
  The stores the character-creating operations can produce: the empty tables of
  \<^verbatim>\<open>db.create_all()\<close>, then any sequence of the two operations.
\<close>

inductive reachable :: "database \<Rightarrow> bool" where
  created: "reachable empty_db"
| predefined_added: "reachable db \<Longrightarrow> reachable (add_predefined_characters db)"
| character_added: "reachable db \<Longrightarrow> reachable (snd (add_character db n d p))"


section \<open>The generation endpoint\<close>

text \<open>
  What Python raises inside \<^verbatim>\<open>chat_with_character\<close>; its \<^verbatim>\<open>try\<close> catches all of
  them alike.
\<close>

datatype py_error =
  KeyError | IndexError | TypeError | JSONDecodeError | RequestException
  | IntegrityError | InterfaceError

text \<open>
  A decoded JSON body. The encoding of the endpoint's reply carries numbers and
  booleans only outside the path the code reads, and the model leaves them out.
  An object is the Python dict, as a list of its items.
\<close>

datatype json =
  JNull
  | JStr string
  | JArr "json list"
  | JObj "(string \<times> json) list"

text \<open>
  The \<^verbatim>\<open>requests\<close> response, as far as the code reads it: \<^verbatim>\<open>status_code\<close>,
  \<^verbatim>\<open>text\<close> (here \<open>resp_text\<close>) and the outcome of \<^verbatim>\<open>json()\<close>, which raises when the
  body is not JSON.
\<close>

record response =
  status_code :: nat
  resp_text :: string
  json :: "py_error + json"

text \<open>Sequencing of steps that may raise.\<close>

definition and_then :: "'e + 'a \<Rightarrow> ('a \<Rightarrow> 'e + 'b) \<Rightarrow> 'e + 'b" where
  "and_then r f = (case r of Inl e \<Rightarrow> Inl e | Inr v \<Rightarrow> f v)"

text \<open>\<^verbatim>\<open>k in v\<close>, \<^verbatim>\<open>len(v)\<close>, \<^verbatim>\<open>v[k]\<close> and \<^verbatim>\<open>v[0]\<close> on a decoded value.\<close>

fun py_in :: "string \<Rightarrow> json \<Rightarrow> py_error + bool" where
  "py_in k (JObj kvs) = Inr (k \<in> set (map fst kvs))"
| "py_in k (JArr xs) = Inr (JStr k \<in> set xs)"
| "py_in k (JStr s) = Inr (str_in k s)"
| "py_in k JNull = Inl TypeError"

fun py_len :: "json \<Rightarrow> py_error + nat" where
  "py_len (JObj kvs) = Inr (length (remdups (map fst kvs)))"
| "py_len (JArr xs) = Inr (length xs)"
| "py_len (JStr s) = Inr (length s)"
| "py_len JNull = Inl TypeError"

fun getitem :: "json \<Rightarrow> string \<Rightarrow> py_error + json" where
  "getitem (JObj kvs) k = (case map_of kvs k of None \<Rightarrow> Inl KeyError | Some v \<Rightarrow> Inr v)"
| "getitem (JArr xs) k = Inl TypeError"
| "getitem (JStr s) k = Inl TypeError"
| "getitem JNull k = Inl TypeError"

fun getitem0 :: "json \<Rightarrow> py_error + json" where
  "getitem0 (JArr []) = Inl IndexError"
| "getitem0 (JArr (x # xs)) = Inr x"
| "getitem0 (JStr []) = Inl IndexError"
| "getitem0 (JStr (c # s)) = Inr (JStr [c])"
| "getitem0 (JObj kvs) = Inl KeyError"
| "getitem0 JNull = Inl TypeError"

text \<open>
  Lines 152-174 of Main.py and 155-175 of Main2.py decide what a response is worth:
  a value to store and return, or a message to return without storing. Any step
  may raise instead. The response counts only when its status is exactly 200;
  on any other status the code logs \<^verbatim>\<open>response.json()\<close>, which may raise, before it
  builds the message from the status and the body.
\<close>

datatype generated = Candidate json | Rejected string

definition first_candidate_text :: "json \<Rightarrow> py_error + json" where
  "first_candidate_text response_data =
     and_then (getitem response_data ''candidates'') (\<lambda>candidates.
     and_then (getitem0 candidates) (\<lambda>candidate.
     and_then (getitem candidate ''content'') (\<lambda>content.
     and_then (getitem content ''parts'') (\<lambda>parts.
     and_then (getitem0 parts) (\<lambda>part.
       getitem part ''text'')))))"

definition has_candidates :: "json \<Rightarrow> py_error + bool" where
  "has_candidates response_data =
     and_then (py_in ''candidates'' response_data) (\<lambda>present.
       if present then
         and_then (getitem response_data ''candidates'') (\<lambda>candidates.
         and_then (py_len candidates) (\<lambda>n. Inr (n > 0)))
       else Inr False)"

definition read_response :: "response \<Rightarrow> py_error + generated" where
  "read_response r =
     (if status_code r = 200 then
        and_then (json r) (\<lambda>response_data.
        and_then (has_candidates response_data) (\<lambda>ok.
          if ok then and_then (first_candidate_text response_data) (\<lambda>t. Inr (Candidate t))
          else Inr (Rejected
            ''An error occurred while generating content: Unexpected response format.'')))
      else
        and_then (json r) (\<lambda>_.
          Inr (Rejected (''An error occurred while generating content: '' @
            str_nat (status_code r) @ '' - '' @ resp_text r))))"


section \<open>Chatting with a character\<close>

text \<open>
  What a call of \<^verbatim>\<open>chat_with_character\<close> takes from outside the program: the
  identifier \<^verbatim>\<open>uuid.uuid4()\<close> would return, the clock, the endpoint as a function
  from the prompt to its response (or to the exception \<^verbatim>\<open>requests.post\<close> raises) and
  \<^verbatim>\<open>str(e)\<close>, the wording of an exception.
\<close>

record env =
  uuid4 :: string
  utcnow :: nat
  post :: "string \<Rightarrow> py_error + response"
  str_exc :: "py_error \<Rightarrow> string"

text \<open>
  What a call gives back: the pair it returns (\<open>reply\<close>, \<open>session\<close>), the store
  after it, the prompts it posted and the number of identifiers it drew.
\<close>

record chat_out =
  reply :: string
  session :: "string option"
  store :: database
  posted :: "string list"
  uuid_calls :: nat

text \<open>
  Lines 158-166: the new row. The store refuses a missing \<^verbatim>\<open>bot_response\<close> or
  \<^verbatim>\<open>user_id\<close> (\<^verbatim>\<open>nullable=False\<close>) and cannot bind a list or a dict to a text column.
\<close>

definition save_conversation ::
  "env \<Rightarrow> database \<Rightarrow> character \<Rightarrow> string \<Rightarrow> json \<Rightarrow> string \<Rightarrow> int option \<Rightarrow>
   py_error + string \<times> database" where
  "save_conversation e db ch input t cid uid =
     (case t of
        JStr text \<Rightarrow>
          (case uid of
             None \<Rightarrow> Inl IntegrityError
           | Some u \<Rightarrow>
               Inr (text,
                 db\<lparr>conversations := conversations db @
                   [\<lparr>conv_id = next_id (map conv_id (conversations db)),
                     character_id = char_id ch,
                     user_input = Some input,
                     bot_response = text,
                     timestamp = utcnow e,
                     chat_id = Some cid,
                     user_id = u\<rparr>]\<rparr>))
      | JNull \<Rightarrow> Inl IntegrityError
      | JArr _ \<Rightarrow> Inl InterfaceError
      | JObj _ \<Rightarrow> Inl InterfaceError)"

text \<open>
  Lines 134-178 of Main.py, 138-179 of Main2.py, the same in both: post the
  prompt, read the response, store the turn. \<open>cid\<close> is the value of \<^verbatim>\<open>chat_id\<close> by
  then and \<open>k\<close> the number of identifiers drawn.
\<close>

definition send_prompt ::
  "env \<Rightarrow> database \<Rightarrow> character \<Rightarrow> string \<Rightarrow> int option \<Rightarrow> string \<Rightarrow> nat \<Rightarrow> string \<Rightarrow>
   chat_out" where
  "send_prompt e db ch input uid cid k full_prompt =
     (let out = (\<lambda>text db'. \<lparr>reply = text, session = Some cid, store = db',
                   posted = [full_prompt], uuid_calls = k\<rparr>);
          caught = (\<lambda>exc. out (''An unexpected error occurred: '' @ str_exc e exc) db)
      in case post e full_prompt of
           Inl exc \<Rightarrow> caught exc
         | Inr r \<Rightarrow>
             (case read_response r of
                Inl exc \<Rightarrow> caught exc
              | Inr (Rejected message) \<Rightarrow> out message db
              | Inr (Candidate t) \<Rightarrow>
                  (case save_conversation e db ch input t cid uid of
                     Inl exc \<Rightarrow> caught exc
                   | Inr (text, db') \<Rightarrow> out text db')))"

text \<open>Lines 127-128: \<^verbatim>\<open>if not chat_id: chat_id = str(uuid.uuid4())\<close>.\<close>

definition no_chat_id :: "string option \<Rightarrow> bool" where
  "no_chat_id cid = (case cid of None \<Rightarrow> True | Some s \<Rightarrow> s = [])"

definition session_id :: "env \<Rightarrow> string option \<Rightarrow> string" where
  "session_id e cid = (case cid of None \<Rightarrow> uuid4 e | Some s \<Rightarrow> if s = [] then uuid4 e else s)"

text \<open>\<^verbatim>\<open>chat_with_character\<close> of Main.py (119-178): the prompt is the template and the new turn.\<close>

definition chat_with_character ::
  "env \<Rightarrow> database \<Rightarrow> string \<Rightarrow> string \<Rightarrow> int option \<Rightarrow> string option \<Rightarrow> chat_out" where
  "chat_with_character e db character_name input uid cid =
     (case character_by_name db character_name of
        None \<Rightarrow> \<lparr>reply = ''Character not found.'', session = None, store = db,
                  posted = [], uuid_calls = 0\<rparr>
      | Some ch \<Rightarrow>
          send_prompt e db ch input uid (session_id e cid) (if no_chat_id cid then 1 else 0)
            (prompt_template ch @ nl @ ''User: '' @ input @ nl @ ''Bot:''))"

text \<open>
  \<^verbatim>\<open>chat_with_character\<close> of Main2.py (121-179): the turns stored for the user, in
  the order of their timestamps, stand between the template and the new turn.
  A missing \<^verbatim>\<open>user_id\<close> selects no row.
\<close>

definition previous_conversations :: "database \<Rightarrow> int option \<Rightarrow> conversation list" where
  "previous_conversations db uid =
     (case uid of
        None \<Rightarrow> []
      | Some u \<Rightarrow> sort_key timestamp (filter (\<lambda>conv. user_id conv = u) (conversations db)))"

definition render_turn :: "conversation \<Rightarrow> string" where
  "render_turn conv =
     ''User: '' @ str_opt (user_input conv) @ nl @ ''Bot: '' @ bot_response conv"

definition context_prompt :: "conversation list \<Rightarrow> string" where
  "context_prompt convs = join '' '' (map render_turn convs)"

definition chat_with_character2 ::
  "env \<Rightarrow> database \<Rightarrow> string \<Rightarrow> string \<Rightarrow> int option \<Rightarrow> string option \<Rightarrow> chat_out" where
  "chat_with_character2 e db character_name input uid cid =
     (case character_by_name db character_name of
        None \<Rightarrow> \<lparr>reply = ''Character not found.'', session = None, store = db,
                  posted = [], uuid_calls = 0\<rparr>
      | Some ch \<Rightarrow>
          send_prompt e db ch input uid (session_id e cid) (if no_chat_id cid then 1 else 0)
            (prompt_template ch @ nl @ context_prompt (previous_conversations db uid) @ nl @
               ''User: '' @ input @ nl @ ''Bot:''))"


section \<open>Reading the history\<close>

text \<open>
  \<^verbatim>\<open>get_chat_history\<close> of Main.py (180-206). \<open>strftime\<close> stands for
  \<^verbatim>\<open>timestamp.strftime("%Y-%m-%d %H:%M:%S")\<close>. The order of turns with equal
  timestamps is the store's choice; the model keeps them in insertion order.
\<close>

definition session_conversations :: "database \<Rightarrow> string \<Rightarrow> conversation list" where
  "session_conversations db cid =
     sort_key timestamp (filter (\<lambda>conv. chat_id conv = Some cid) (conversations db))"

definition history_entry :: "(nat \<Rightarrow> string) \<Rightarrow> conversation \<Rightarrow> string" where
  "history_entry strftime conv =
     ''['' @ strftime (timestamp conv) @ '']'' @ nl @
     ''User: '' @ str_opt (user_input conv) @ nl @
     ''Bot: '' @ bot_response conv @ nl @ nl"

definition history_header :: "database \<Rightarrow> conversation \<Rightarrow> string \<Rightarrow> string" where
  "history_header db conv cid =
     ''Chat History with '' @
     (case character_by_id db (character_id conv) of
        None \<Rightarrow> ''Unknown Character''
      | Some ch \<Rightarrow> name ch) @
     '' (ID: '' @ cid @ ''):'' @ nl @ nl"

definition get_chat_history :: "(nat \<Rightarrow> string) \<Rightarrow> database \<Rightarrow> string option \<Rightarrow> string" where
  "get_chat_history strftime db cid =
     (case cid of
        None \<Rightarrow> ''No chat ID provided.''
      | Some s \<Rightarrow>
          if s = [] then ''No chat ID provided.''
          else
            (case session_conversations db s of
               [] \<Rightarrow> ''No chat history found for this ID.''
             | conv # convs \<Rightarrow>
                 history_header db conv s @
                 concat (map (history_entry strftime) (conv # convs))))"

text \<open>
  \<^verbatim>\<open>get_all_chat_ids\<close> of Main.py (208-240): the join of the turns with their
  characters, the turns without \<^verbatim>\<open>chat_id\<close> dropped, grouped by \<^verbatim>\<open>chat_id\<close> and
  character name, each group with its earliest timestamp and its size, the latest
  group first.
\<close>

record session_row =
  row_chat_id :: string
  character_name :: string
  start_time :: nat
  message_count :: nat

definition joined :: "database \<Rightarrow> (conversation \<times> character) list" where
  "joined db =
     concat (map (\<lambda>conv.
       map (\<lambda>ch. (conv, ch)) (filter (\<lambda>ch. character_id conv = char_id ch) (characters db)))
       (conversations db))"

definition group_key :: "conversation \<times> character \<Rightarrow> (string \<times> string) option" where
  "group_key p = (case chat_id (fst p) of None \<Rightarrow> None | Some s \<Rightarrow> Some (s, name (snd p)))"

definition group_keys :: "database \<Rightarrow> (string \<times> string) list" where
  "group_keys db = remdups (List.map_filter group_key (joined db))"

definition group_of :: "database \<Rightarrow> string \<times> string \<Rightarrow> conversation list" where
  "group_of db k = map fst (filter (\<lambda>p. group_key p = Some k) (joined db))"

definition summary_row :: "database \<Rightarrow> string \<times> string \<Rightarrow> session_row" where
  "summary_row db k =
     \<lparr>row_chat_id = fst k, character_name = snd k,
      start_time = Min (set (map timestamp (group_of db k))),
      message_count = length (group_of db k)\<rparr>"

definition sessions_query :: "database \<Rightarrow> session_row list" where
  "sessions_query db = rev (sort_key start_time (map (summary_row db) (group_keys db)))"

definition get_all_chat_ids ::
  "(nat \<Rightarrow> string) \<Rightarrow> database \<Rightarrow> (string \<times> string \<times> string \<times> nat) list" where
  "get_all_chat_ids strftime db =
     map (\<lambda>chat. (row_chat_id chat, character_name chat, strftime (start_time chat),
                  message_count chat))
       (sessions_query db)"

section \<open>Words of the specification\<close>

text \<open>
  The specification speaks of a 2xx status, of a body lacking any candidate and of
  a failing endpoint. These three follow its words, not the code.
\<close>

definition is_2xx :: "nat \<Rightarrow> bool" where
  "is_2xx s = (200 \<le> s \<and> s < 300)"

definition no_candidate :: "json \<Rightarrow> bool" where
  "no_candidate response_data =
     (case response_data of
        JObj kvs \<Rightarrow>
          (case map_of kvs ''candidates'' of
             None \<Rightarrow> True
           | Some (JArr []) \<Rightarrow> True
           | Some _ \<Rightarrow> False)
      | _ \<Rightarrow> True)"

definition endpoint_fails :: "py_error + response \<Rightarrow> bool" where
  "endpoint_fails a =
     (case a of
        Inl _ \<Rightarrow> True
      | Inr r \<Rightarrow>
          \<not> is_2xx (status_code r) \<or>
          (case json r of Inl _ \<Rightarrow> True | Inr response_data \<Rightarrow> no_candidate response_data))"

definition generation_error :: "string \<Rightarrow> bool" where
  "generation_error s = (\<exists>rest. s = ''An error occurred while generating content: '' @ rest)"


text \<open>
  A turn of the session \<open>s\<close> with the character named \<open>n\<close>: it carries the
  identifier and a stored character with its \<^verbatim>\<open>character_id\<close> has that name. A row
  of the summary is identified by its session and its character name.
\<close>

definition turn_of :: "database \<Rightarrow> string \<Rightarrow> string \<Rightarrow> conversation \<Rightarrow> bool" where
  "turn_of db s n conv =
     (chat_id conv = Some s \<and>
      (\<exists>ch \<in> set (characters db). char_id ch = character_id conv \<and> name ch = n))"

definition row_key :: "session_row \<Rightarrow> string \<times> string" where
  "row_key r = (row_chat_id r, character_name r)"


section \<open>Sample data\<close>

text \<open>A store with one character, an endpoint that always gives the same answer, and a few responses.\<close>

definition pirate :: character where
  "pirate = \<lparr>char_id = 1, name = ''Sarcastic Pirate'', description = ''A pirate.'',
             prompt_template = ''You are X.''\<rparr>"

definition pirate_db :: database where
  "pirate_db = \<lparr>characters = [pirate], conversations = []\<rparr>"

definition turn_ab :: conversation where
  "turn_ab = \<lparr>conv_id = 1, character_id = 1, user_input = Some ''a'', bot_response = ''b'',
              timestamp = 10, chat_id = Some ''s1'', user_id = 7\<rparr>"

definition pirate_db_ab :: database where
  "pirate_db_ab = \<lparr>characters = [pirate], conversations = [turn_ab]\<rparr>"

definition stub_env :: "py_error + response \<Rightarrow> env" where
  "stub_env a =
     \<lparr>uuid4 = ''0f8fad5b-d9cb-469f-a165-70867728950e'', utcnow = 1000,
      post = (\<lambda>_. a), str_exc = (\<lambda>_. ''error'')\<rparr>"

definition ahoy_body :: json where
  "ahoy_body =
     JObj [(''candidates'',
       JArr [JObj [(''content'',
         JObj [(''parts'', JArr [JObj [(''text'', JStr ''Ahoy!'')]])])]])]"

abbreviation dq :: string where
  "dq \<equiv> [CHR 0x22]"

definition ahoy_text :: string where
  "ahoy_text =
     ''{'' @ dq @ ''candidates'' @ dq @ '': [{'' @ dq @ ''content'' @ dq @ '': {'' @ dq @
     ''parts'' @ dq @ '': [{'' @ dq @ ''text'' @ dq @ '': '' @ dq @ ''Ahoy!'' @ dq @ ''}]}}]}''"

definition ahoy_response :: "nat \<Rightarrow> response" where
  "ahoy_response s = \<lparr>status_code = s, resp_text = ahoy_text, json = Inr ahoy_body\<rparr>"

definition empty_response :: response where
  "empty_response = \<lparr>status_code = 200, resp_text = ''{}'', json = Inr (JObj [])\<rparr>"

definition unavailable :: response where
  "unavailable = \<lparr>status_code = 503, resp_text = ''{}'', json = Inr (JObj [])\<rparr>"

definition turn_late :: conversation where
  "turn_late = \<lparr>conv_id = 1, character_id = 1, user_input = Some ''second'', bot_response = ''Arr.'',
                timestamp = 20, chat_id = Some ''s1'', user_id = 7\<rparr>"

definition turn_early :: conversation where
  "turn_early = \<lparr>conv_id = 2, character_id = 1, user_input = Some ''first'', bot_response = ''Ahoy!'',
                 timestamp = 10, chat_id = Some ''s1'', user_id = 7\<rparr>"

definition history_db :: database where
  "history_db = \<lparr>characters = [pirate], conversations = [turn_late, turn_early]\<rparr>"

definition sage :: character where
  "sage = \<lparr>char_id = 2, name = ''Professor Sage'', description = ''A professor.'',
           prompt_template = ''You are Y.''\<rparr>"

definition turn_sage :: conversation where
  "turn_sage = \<lparr>conv_id = 2, character_id = 2, user_input = Some ''why'', bot_response = ''Because.'',
                timestamp = 20, chat_id = Some ''s1'', user_id = 7\<rparr>"

definition two_db :: database where
  "two_db = \<lparr>characters = [pirate, sage], conversations = [turn_ab, turn_sage]\<rparr>"


definition sage_db :: database where
  "sage_db = \<lparr>characters = [pirate, sage], conversations = [turn_sage]\<rparr>"

definition orphan_db :: database where
  "orphan_db = \<lparr>characters = [pirate], conversations = [turn_sage]\<rparr>"

section \<open>Lookups and effects\<close>

lemma find_name_Some:
  "n \<in> set (map name chs) \<Longrightarrow> \<exists>ch. find (\<lambda>ch. name ch = n) chs = Some ch"
  by (induction chs) auto

lemma find_None_iff_name: "find (\<lambda>ch. name ch = n) chs = None \<longleftrightarrow> n \<notin> set (map name chs)"
  by (induction chs) auto

lemma unknown_name:
  "cname \<notin> set (map name (characters db)) \<Longrightarrow> character_by_name db cname = None"
  by (simp add: character_by_name_def find_None_iff_name)

lemma pirate_found: "character_by_name pirate_db ''Sarcastic Pirate'' = Some pirate"
  by (simp add: character_by_name_def pirate_db_def pirate_def)

lemma pirate_found_ab: "character_by_name pirate_db_ab ''Sarcastic Pirate'' = Some pirate"
  by (simp add: character_by_name_def pirate_db_ab_def pirate_def)

lemma nobody_unknown: "''Nobody'' \<notin> set (map name (characters pirate_db))"
  by (simp add: pirate_db_def pirate_def)

lemma posted_send_prompt [simp]: "posted (send_prompt e db ch input uid cid k p) = [p]"
  by (simp add: send_prompt_def Let_def split: sum.splits generated.splits prod.splits)

lemma session_send_prompt [simp]: "session (send_prompt e db ch input uid cid k p) = Some cid"
  by (simp add: send_prompt_def Let_def split: sum.splits generated.splits prod.splits)

lemma uuid_calls_send_prompt [simp]: "uuid_calls (send_prompt e db ch input uid cid k p) = k"
  by (simp add: send_prompt_def Let_def split: sum.splits generated.splits prod.splits)

lemma join_Cons: "join sep (x # xs) = x @ concat (map (\<lambda>y. sep @ y) xs)"
  by (induction xs arbitrary: x) auto


section \<open>The prompt\<close>

text \<open>
  C1, as the code has it. Main.py never reads prior turns and posts the template,
  a line feed and the new turn. Main2.py puts the context between two line feeds,
  so with no prior turn of the user the context is the empty string and an empty
  line stands between the template and the new turn.
\<close>

theorem prompt_without_prior_turns:
  assumes "character_by_name db cname = Some ch"
  shows "posted (chat_with_character e db cname m uid cid) =
           [prompt_template ch @ nl @ ''User: '' @ m @ nl @ ''Bot:''] \<and>
         (previous_conversations db uid = [] \<longrightarrow>
          posted (chat_with_character2 e db cname m uid cid) =
            [prompt_template ch @ nl @ nl @ ''User: '' @ m @ nl @ ''Bot:''])"
  using assms
  by (simp add: chat_with_character_def chat_with_character2_def context_prompt_def)

theorem prompt_without_prior_turns_witness:
  "character_by_name pirate_db ''Sarcastic Pirate'' = Some pirate \<and>
   previous_conversations pirate_db (Some 7) = [] \<and>
   posted (chat_with_character (stub_env (Inr (ahoy_response 200))) pirate_db
     ''Sarcastic Pirate'' ''hi'' (Some 7) None) =
     [''You are X.'' @ nl @ ''User: hi'' @ nl @ ''Bot:''] \<and>
   posted (chat_with_character2 (stub_env (Inr (ahoy_response 200))) pirate_db
     ''Sarcastic Pirate'' ''hi'' (Some 7) None) =
     [''You are X.'' @ nl @ nl @ ''User: hi'' @ nl @ ''Bot:'']"
proof -
  have p: "previous_conversations pirate_db (Some 7) = []"
    by (simp add: previous_conversations_def pirate_db_def)
  from prompt_without_prior_turns [OF pirate_found,
      of "stub_env (Inr (ahoy_response 200))" "''hi''" "Some 7" None] p
  show ?thesis by (simp add: pirate_found pirate_def)
qed

text \<open>
  C1 as stated fails on Main2.py: for the template \<^verbatim>\<open>You are X.\<close>, no prior turn and
  the message \<^verbatim>\<open>hi\<close>, the prompt posted has two line feeds after the template.
\<close>

theorem empty_context_leaves_blank_line:
  "posted (chat_with_character2 (stub_env (Inr (ahoy_response 200))) pirate_db
     ''Sarcastic Pirate'' ''hi'' (Some 7) None) =
     [''You are X.'' @ nl @ nl @ ''User: hi'' @ nl @ ''Bot:''] \<and>
   posted (chat_with_character2 (stub_env (Inr (ahoy_response 200))) pirate_db
     ''Sarcastic Pirate'' ''hi'' (Some 7) None) \<noteq>
     [''You are X.'' @ nl @ ''User: hi'' @ nl @ ''Bot:'']"
proof -
  have p: "previous_conversations pirate_db (Some 7) = []"
    by (simp add: previous_conversations_def pirate_db_def)
  show ?thesis
    by (simp add: chat_with_character2_def pirate_found p context_prompt_def pirate_def)
qed

text \<open>
  C2: in Main2.py, with prior turns \<open>t # ts\<close> of the user, the prompt posted is the
  template, a line feed, the turns rendered as \<^verbatim>\<open>User: ...\<close>, line feed, \<^verbatim>\<open>Bot: ...\<close>
  with one space before each turn but the first, in the order given, then the new
  turn. With the single prior turn a/b and the new message m it is
  template, \<^verbatim>\<open>User: a\<close>, \<^verbatim>\<open>Bot: b\<close>, \<^verbatim>\<open>User: m\<close>, \<^verbatim>\<open>Bot:\<close>, one per line.
\<close>

theorem prompt_with_prior_turns:
  assumes "character_by_name db cname = Some ch"
      and "previous_conversations db uid = t # ts"
  shows "posted (chat_with_character2 e db cname m uid cid) =
           [prompt_template ch @ nl @
            render_turn t @ concat (map (\<lambda>t'. '' '' @ render_turn t') ts) @ nl @
            ''User: '' @ m @ nl @ ''Bot:''] \<and>
         render_turn t = ''User: '' @ str_opt (user_input t) @ nl @ ''Bot: '' @ bot_response t \<and>
         (ts = [] \<and> user_input t = Some a \<and> bot_response t = b \<longrightarrow>
          posted (chat_with_character2 e db cname m uid cid) =
            [prompt_template ch @ nl @ ''User: '' @ a @ nl @ ''Bot: '' @ b @ nl @
             ''User: '' @ m @ nl @ ''Bot:''])"
proof -
  have sent: "posted (chat_with_character2 e db cname m uid cid) =
      [prompt_template ch @ nl @
       render_turn t @ concat (map (\<lambda>t'. '' '' @ render_turn t') ts) @ nl @
       ''User: '' @ m @ nl @ ''Bot:'']"
    using assms by (simp add: chat_with_character2_def context_prompt_def join_Cons comp_def)
  have one: "render_turn t = ''User: '' @ str_opt (user_input t) @ nl @ ''Bot: '' @ bot_response t"
    by (simp add: render_turn_def)
  have "posted (chat_with_character2 e db cname m uid cid) =
      [prompt_template ch @ nl @ ''User: '' @ a @ nl @ ''Bot: '' @ b @ nl @
       ''User: '' @ m @ nl @ ''Bot:'']"
    if "ts = []" "user_input t = Some a" "bot_response t = b"
    using that sent one by (simp add: str_opt_def)
  with sent one show ?thesis by blast
qed

theorem prompt_with_prior_turns_witness:
  "character_by_name pirate_db_ab ''Sarcastic Pirate'' = Some pirate \<and>
   previous_conversations pirate_db_ab (Some 7) = [turn_ab] \<and>
   posted (chat_with_character2 (stub_env (Inr (ahoy_response 200))) pirate_db_ab
     ''Sarcastic Pirate'' ''c'' (Some 7) None) =
     [''You are X.'' @ nl @ ''User: a'' @ nl @ ''Bot: b'' @ nl @ ''User: c'' @ nl @ ''Bot:'']"
proof -
  have p: "previous_conversations pirate_db_ab (Some 7) = [turn_ab]"
    by (simp add: previous_conversations_def pirate_db_ab_def turn_ab_def)
  have u: "user_input turn_ab = Some ''a''" and b: "bot_response turn_ab = ''b''"
    by (simp_all add: turn_ab_def)
  from prompt_with_prior_turns [OF pirate_found_ab p,
      of "stub_env (Inr (ahoy_response 200))" "''c''" None "''a''" "''b''"] u b
  show ?thesis by (simp add: pirate_found_ab p pirate_def str_opt_def)
qed


section \<open>Creating characters\<close>

text \<open>
  C6: \<^verbatim>\<open>add_character\<close> with a name that a stored character has, character for
  character, returns the message that the character already exists and leaves the
  store as it was.
\<close>

theorem add_character_duplicate:
  assumes "n \<in> set (map name (characters db))"
  shows "add_character db n d p =
           (''Character '' @ apos @ n @ apos @ '' already exists!'', db)"
proof -
  from assms obtain ch where "character_by_name db n = Some ch"
    unfolding character_by_name_def using find_name_Some by blast
  then show ?thesis by (simp add: add_character_def)
qed

theorem add_character_duplicate_witness:
  "''Sarcastic Pirate'' \<in> set (map name (characters pirate_db)) \<and>
   add_character pirate_db ''Sarcastic Pirate'' ''Another.'' ''You are Y.'' =
     (''Character '' @ apos @ ''Sarcastic Pirate'' @ apos @ '' already exists!'', pirate_db)"
proof -
  have h: "''Sarcastic Pirate'' \<in> set (map name (characters pirate_db))"
    by (simp add: pirate_db_def pirate_def)
  from h add_character_duplicate [OF h, of "''Another.''" "''You are Y.''"]
  show ?thesis by simp
qed

lemma insert_character_names:
  "map name (characters (insert_character db n d p)) = map name (characters db) @ [n]"
  by (simp add: insert_character_def)

lemma add_if_absent_distinct:
  "distinct (map name (characters db)) \<Longrightarrow>
   distinct (map name (characters (add_if_absent x db)))"
  by (cases x)
     (auto simp: add_if_absent_def character_by_name_def insert_character_names
        find_None_iff_name split: option.splits)

lemma fold_add_if_absent_distinct:
  "distinct (map name (characters db)) \<Longrightarrow>
   distinct (map name (characters (fold add_if_absent xs db)))"
  by (induction xs arbitrary: db) (auto simp: add_if_absent_distinct)

lemma add_character_distinct:
  "distinct (map name (characters db)) \<Longrightarrow>
   distinct (map name (characters (snd (add_character db n d p))))"
  by (auto simp: add_character_def character_by_name_def insert_character_names
        find_None_iff_name split: option.splits)

lemma next_id_fresh: "next_id ids \<notin> set ids"
proof
  assume a: "next_id ids \<in> set ids"
  have "fold max ids 0 = Max (set (0 # ids))"
    by (simp only: Max.set_eq_fold)
  moreover from a have "next_id ids \<le> Max (set (0 # ids))"
    by (intro Max_ge) auto
  ultimately show False by (simp add: next_id_def)
qed

text \<open>
  C9, as the code has it: in every store reachable by creating characters no two
  characters share a name, and \<^verbatim>\<open>add_character\<close> with a name that is not stored
  appends one character that carries the name, the description and the template
  exactly as given, under an id no stored character has, and changes nothing else.
  Nothing in \<^verbatim>\<open>add_character\<close> looks at the length of the name, the description
  or the template, so each of them may be empty.
\<close>

theorem reachable_names_distinct:
  "reachable db \<Longrightarrow>
   distinct (map name (characters db)) \<and>
   (n \<notin> set (map name (characters db)) \<longrightarrow>
      (\<exists>i. i \<notin> set (map char_id (characters db)) \<and>
           snd (add_character db n d p) =
             db\<lparr>characters := characters db @
               [\<lparr>char_id = i, name = n, description = d, prompt_template = p\<rparr>]\<rparr>))"
proof
  show "reachable db \<Longrightarrow> distinct (map name (characters db))"
  proof (induction rule: reachable.induct)
    case created
    show ?case by (simp add: empty_db_def)
  next
    case (predefined_added db)
    from predefined_added.IH show ?case
      unfolding add_predefined_characters_def by (rule fold_add_if_absent_distinct)
  next
    case (character_added db n d p)
    from character_added.IH show ?case by (rule add_character_distinct)
  qed
next
  show "n \<notin> set (map name (characters db)) \<longrightarrow>
      (\<exists>i. i \<notin> set (map char_id (characters db)) \<and>
           snd (add_character db n d p) =
             db\<lparr>characters := characters db @
               [\<lparr>char_id = i, name = n, description = d, prompt_template = p\<rparr>]\<rparr>)"
  proof
    assume "n \<notin> set (map name (characters db))"
    then have "character_by_name db n = None"
      by (simp add: character_by_name_def find_None_iff_name)
    then have "snd (add_character db n d p) =
        db\<lparr>characters := characters db @
          [\<lparr>char_id = next_id (map char_id (characters db)), name = n, description = d,
            prompt_template = p\<rparr>]\<rparr>"
      by (simp add: add_character_def insert_character_def)
    with next_id_fresh [of "map char_id (characters db)"]
    show "\<exists>i. i \<notin> set (map char_id (characters db)) \<and>
           snd (add_character db n d p) =
             db\<lparr>characters := characters db @
               [\<lparr>char_id = i, name = n, description = d, prompt_template = p\<rparr>]\<rparr>"
      by blast
  qed
qed

theorem reachable_names_distinct_witness:
  "reachable (snd (add_character empty_db ''Sarcastic Pirate'' ''A pirate.'' ''You are X.'')) \<and>
   snd (add_character empty_db ''Sarcastic Pirate'' ''A pirate.'' ''You are X.'') = pirate_db \<and>
   distinct (map name (characters pirate_db)) \<and>
   ''Professor Sage'' \<notin> set (map name (characters pirate_db)) \<and>
   snd (add_character pirate_db ''Professor Sage'' ''A professor.'' ''You are Y.'') =
     \<lparr>characters =
        [\<lparr>char_id = 1, name = ''Sarcastic Pirate'', description = ''A pirate.'',
          prompt_template = ''You are X.''\<rparr>,
         \<lparr>char_id = 2, name = ''Professor Sage'', description = ''A professor.'',
          prompt_template = ''You are Y.''\<rparr>],
      conversations = []\<rparr>"
proof -
  have r: "reachable (snd (add_character empty_db ''Sarcastic Pirate'' ''A pirate.'' ''You are X.''))"
    by (rule reachable.character_added) (rule reachable.created)
  have e: "snd (add_character empty_db ''Sarcastic Pirate'' ''A pirate.'' ''You are X.'') = pirate_db"
    by (simp add: add_character_def character_by_name_def empty_db_def insert_character_def
          next_id_def pirate_db_def pirate_def)
  have a: "''Professor Sage'' \<notin> set (map name (characters pirate_db))"
    by (simp add: pirate_db_def pirate_def)
  from r e have r': "reachable pirate_db"
    by simp
  from reachable_names_distinct [OF r', of "''Professor Sage''" "''A professor.''" "''You are Y.''"] a
  obtain i where
    d: "distinct (map name (characters pirate_db))"
    and f: "i \<notin> set (map char_id (characters pirate_db))"
    and s: "snd (add_character pirate_db ''Professor Sage'' ''A professor.'' ''You are Y.'') =
       pirate_db\<lparr>characters := characters pirate_db @
         [\<lparr>char_id = i, name = ''Professor Sage'', description = ''A professor.'',
           prompt_template = ''You are Y.''\<rparr>]\<rparr>"
    by blast
  have i: "char_id (last (characters
      (snd (add_character pirate_db ''Professor Sage'' ''A professor.'' ''You are Y.'')))) = 2"
    by (simp add: add_character_def character_by_name_def insert_character_def
          next_id_def pirate_db_def pirate_def)
  from s i have "i = 2"
    by simp
  with s have "snd (add_character pirate_db ''Professor Sage'' ''A professor.'' ''You are Y.'') =
     \<lparr>characters =
        [\<lparr>char_id = 1, name = ''Sarcastic Pirate'', description = ''A pirate.'',
          prompt_template = ''You are X.''\<rparr>,
         \<lparr>char_id = 2, name = ''Professor Sage'', description = ''A professor.'',
          prompt_template = ''You are Y.''\<rparr>],
      conversations = []\<rparr>"
    by (simp add: pirate_db_def pirate_def)
  with r e d a show ?thesis by blast
qed

text \<open>
  C9 as stated fails: three empty text boxes give a stored character whose name,
  description and template are all empty.
\<close>

theorem blank_character_stored:
  "reachable (snd (add_character empty_db [] [] [])) \<and>
   characters (snd (add_character empty_db [] [] [])) =
     [\<lparr>char_id = 1, name = [], description = [], prompt_template = []\<rparr>]"
proof -
  have "reachable (snd (add_character empty_db [] [] []))"
    by (rule reachable.character_added) (rule reachable.created)
  then show ?thesis
    by (simp add: add_character_def character_by_name_def empty_db_def insert_character_def
          next_id_def)
qed


section \<open>Chatting with an unknown character\<close>

text \<open>
  C7: for a name no stored character has, both programs return the message
  \<^verbatim>\<open>Character not found.\<close> as an ordinary result, post nothing and leave the store,
  so also its turns, as it was.
\<close>

theorem chat_unknown_character:
  assumes "cname \<notin> set (map name (characters db))"
  shows "reply (chat_with_character e db cname input uid cid) = ''Character not found.'' \<and>
         store (chat_with_character e db cname input uid cid) = db \<and>
         posted (chat_with_character e db cname input uid cid) = [] \<and>
         reply (chat_with_character2 e db cname input uid cid) = ''Character not found.'' \<and>
         store (chat_with_character2 e db cname input uid cid) = db \<and>
         posted (chat_with_character2 e db cname input uid cid) = []"
  using unknown_name [OF assms]
  by (simp add: chat_with_character_def chat_with_character2_def)

theorem chat_unknown_character_witness:
  "''Nobody'' \<notin> set (map name (characters pirate_db)) \<and>
   reply (chat_with_character (stub_env (Inr (ahoy_response 200))) pirate_db
     ''Nobody'' ''hi'' (Some 7) None) = ''Character not found.'' \<and>
   store (chat_with_character (stub_env (Inr (ahoy_response 200))) pirate_db
     ''Nobody'' ''hi'' (Some 7) None) = pirate_db \<and>
   reply (chat_with_character2 (stub_env (Inr (ahoy_response 200))) pirate_db
     ''Nobody'' ''hi'' (Some 7) None) = ''Character not found.'' \<and>
   store (chat_with_character2 (stub_env (Inr (ahoy_response 200))) pirate_db
     ''Nobody'' ''hi'' (Some 7) None) = pirate_db"
  using nobody_unknown chat_unknown_character [OF nobody_unknown,
      of "stub_env (Inr (ahoy_response 200))" "''hi''" "Some 7" None]
  by simp

text \<open>
  C10: for a name no stored character has, the second component of the pair
  returned is \<^verbatim>\<open>None\<close>, whatever \<^verbatim>\<open>chat_id\<close> the caller gave, and no identifier is
  drawn from \<^verbatim>\<open>uuid.uuid4()\<close>.
\<close>

theorem chat_unknown_character_session:
  assumes "cname \<notin> set (map name (characters db))"
  shows "session (chat_with_character e db cname input uid cid) = None \<and>
         uuid_calls (chat_with_character e db cname input uid cid) = 0 \<and>
         session (chat_with_character2 e db cname input uid cid) = None \<and>
         uuid_calls (chat_with_character2 e db cname input uid cid) = 0"
  using unknown_name [OF assms]
  by (simp add: chat_with_character_def chat_with_character2_def)

theorem chat_unknown_character_session_witness:
  "''Nobody'' \<notin> set (map name (characters pirate_db)) \<and>
   session (chat_with_character (stub_env (Inr (ahoy_response 200))) pirate_db
     ''Nobody'' ''hi'' (Some 7) (Some ''s1'')) = None \<and>
   uuid_calls (chat_with_character (stub_env (Inr (ahoy_response 200))) pirate_db
     ''Nobody'' ''hi'' (Some 7) (Some ''s1'')) = 0 \<and>
   session (chat_with_character2 (stub_env (Inr (ahoy_response 200))) pirate_db
     ''Nobody'' ''hi'' (Some 7) (Some ''s1'')) = None \<and>
   uuid_calls (chat_with_character2 (stub_env (Inr (ahoy_response 200))) pirate_db
     ''Nobody'' ''hi'' (Some 7) (Some ''s1'')) = 0"
  using nobody_unknown chat_unknown_character_session [OF nobody_unknown,
      of "stub_env (Inr (ahoy_response 200))" "''hi''" "Some 7" "Some ''s1''"]
  by simp


section \<open>Reading the response\<close>

lemma str_nat_503: "str_nat 503 = ''503''"
  by (simp add: str_nat.simps)

lemma ahoy_has_candidates: "has_candidates ahoy_body = Inr True"
  by (simp add: has_candidates_def ahoy_body_def and_then_def)

lemma ahoy_first_text: "first_candidate_text ahoy_body = Inr (JStr ''Ahoy!'')"
  by (simp add: first_candidate_text_def ahoy_body_def and_then_def)

lemma key_present: "map_of kvs k = Some v \<Longrightarrow> k \<in> fst ` set kvs"
  by (metis map_of_eq_None_iff option.distinct(1))

lemma str_nat_201: "str_nat 201 = ''201''"
  by (simp add: str_nat.simps)


lemma has_candidates_present:
  "map_of kvs ''candidates'' = Some (JArr (x # xs)) \<Longrightarrow> has_candidates (JObj kvs) = Inr True"
  using key_present [of kvs "''candidates''"]
  by (simp add: has_candidates_def and_then_def)

lemma has_candidates_empty:
  "map_of kvs ''candidates'' = Some (JArr []) \<Longrightarrow> has_candidates (JObj kvs) = Inr False"
  using key_present [of kvs "''candidates''"]
  by (simp add: has_candidates_def and_then_def)

lemma has_candidates_absent:
  "map_of kvs ''candidates'' = None \<Longrightarrow> has_candidates (JObj kvs) = Inr False"
  by (simp add: has_candidates_def and_then_def map_of_eq_None_iff)

lemma first_candidate_text_path:
  "map_of kvs ''candidates'' = Some (JArr (JObj c # cs)) \<Longrightarrow>
   map_of c ''content'' = Some (JObj ct) \<Longrightarrow>
   map_of ct ''parts'' = Some (JArr (JObj pt # ps)) \<Longrightarrow>
   map_of pt ''text'' = Some t \<Longrightarrow>
   first_candidate_text (JObj kvs) = Inr t"
  by (simp add: first_candidate_text_def and_then_def)


text \<open>
  C3, as the code has it. A response with status exactly 200 whose body has the
  text at \<^verbatim>\<open>candidates[0].content.parts[0].text\<close> yields that text. A response with
  any other status, 201 to 299 included, whose body decodes yields the message that
  carries the status code and the body. A response with status 200 whose body is an
  object without the key \<^verbatim>\<open>candidates\<close>, or with an empty list under it, yields the
  separate message \<^verbatim>\<open>Unexpected response format\<close>.
\<close>

theorem response_reading:
  "(status_code r = 200 \<and> json r = Inr (JObj kvs) \<and>
    map_of kvs ''candidates'' = Some (JArr (JObj c # cs)) \<and>
    map_of c ''content'' = Some (JObj ct) \<and>
    map_of ct ''parts'' = Some (JArr (JObj pt # ps)) \<and>
    map_of pt ''text'' = Some (JStr t) \<longrightarrow>
      read_response r = Inr (Candidate (JStr t))) \<and>
   (status_code r \<noteq> 200 \<and> json r = Inr response_data \<longrightarrow>
      read_response r =
        Inr (Rejected (''An error occurred while generating content: '' @
               str_nat (status_code r) @ '' - '' @ resp_text r))) \<and>
   (status_code r = 200 \<and> json r = Inr (JObj kvs) \<and>
    (map_of kvs ''candidates'' = None \<or> map_of kvs ''candidates'' = Some (JArr [])) \<longrightarrow>
      read_response r =
        Inr (Rejected ''An error occurred while generating content: Unexpected response format.''))"
proof (intro conjI impI)
  assume a: "status_code r = 200 \<and> json r = Inr (JObj kvs) \<and>
    map_of kvs ''candidates'' = Some (JArr (JObj c # cs)) \<and>
    map_of c ''content'' = Some (JObj ct) \<and>
    map_of ct ''parts'' = Some (JArr (JObj pt # ps)) \<and>
    map_of pt ''text'' = Some (JStr t)"
  then have h: "has_candidates (JObj kvs) = Inr True"
    using has_candidates_present by blast
  from a have f: "first_candidate_text (JObj kvs) = Inr (JStr t)"
    using first_candidate_text_path by blast
  from a have "status_code r = 200" "json r = Inr (JObj kvs)" by blast+
  with h f show "read_response r = Inr (Candidate (JStr t))"
    by (simp add: read_response_def and_then_def)
next
  assume "status_code r \<noteq> 200 \<and> json r = Inr response_data"
  then show "read_response r =
        Inr (Rejected (''An error occurred while generating content: '' @
               str_nat (status_code r) @ '' - '' @ resp_text r))"
    by (simp add: read_response_def and_then_def)
next
  assume a: "status_code r = 200 \<and> json r = Inr (JObj kvs) \<and>
    (map_of kvs ''candidates'' = None \<or> map_of kvs ''candidates'' = Some (JArr []))"
  then have h: "has_candidates (JObj kvs) = Inr False"
    using has_candidates_absent has_candidates_empty by blast
  from a have "status_code r = 200" "json r = Inr (JObj kvs)" by blast+
  with h show "read_response r =
        Inr (Rejected ''An error occurred while generating content: Unexpected response format.'')"
    by (simp add: read_response_def and_then_def)
qed

theorem response_reading_witness:
  "read_response (ahoy_response 200) = Inr (Candidate (JStr ''Ahoy!'')) \<and>
   read_response unavailable =
     Inr (Rejected ''An error occurred while generating content: 503 - {}'') \<and>
   read_response empty_response =
     Inr (Rejected ''An error occurred while generating content: Unexpected response format.'')"
proof -
  have 1: "read_response (ahoy_response 200) = Inr (Candidate (JStr ''Ahoy!''))"
    using response_reading [of "ahoy_response 200"
        "[(''candidates'', JArr [JObj [(''content'',
            JObj [(''parts'', JArr [JObj [(''text'', JStr ''Ahoy!'')]])])]])]"
        "[(''content'', JObj [(''parts'', JArr [JObj [(''text'', JStr ''Ahoy!'')]])])]" "[]"
        "[(''parts'', JArr [JObj [(''text'', JStr ''Ahoy!'')]])]"
        "[(''text'', JStr ''Ahoy!'')]" "[]" "''Ahoy!''"]
    by (simp add: ahoy_response_def ahoy_body_def)
  have 2: "read_response unavailable =
     Inr (Rejected ''An error occurred while generating content: 503 - {}'')"
    using response_reading [of unavailable _ _ _ _ _ _ _ "JObj []"]
    by (simp add: unavailable_def str_nat_503)
  have 3: "read_response empty_response =
     Inr (Rejected ''An error occurred while generating content: Unexpected response format.'')"
    using response_reading [of empty_response "[]"]
    by (simp add: empty_response_def)
  from 1 2 3 show ?thesis by blast
qed

text \<open>
  C3 as stated fails: status 201 is a 2xx status, the body holds a candidate with
  the text \<^verbatim>\<open>Ahoy!\<close>, and the answer is the message with the status, not the text.
\<close>

theorem created_status_is_rejected:
  "is_2xx (status_code (ahoy_response 201)) \<and>
   json (ahoy_response 201) = Inr ahoy_body \<and>
   first_candidate_text ahoy_body = Inr (JStr ''Ahoy!'') \<and>
   read_response (ahoy_response 201) =
     Inr (Rejected (''An error occurred while generating content: 201 - '' @ ahoy_text)) \<and>
   read_response (ahoy_response 201) \<noteq> Inr (Candidate (JStr ''Ahoy!''))"
  by (simp add: is_2xx_def ahoy_response_def read_response_def and_then_def str_nat_201 ahoy_first_text)


section \<open>A failing endpoint\<close>

lemma has_candidates_True:
  "has_candidates response_data = Inr True \<Longrightarrow> \<not> no_candidate response_data"
  by (cases response_data)
     (auto simp: has_candidates_def no_candidate_def and_then_def map_of_eq_None_iff
           split: option.splits json.splits list.splits if_splits sum.splits)

lemma read_response_Candidate:
  assumes "read_response r = Inr (Candidate t)"
  shows "status_code r = 200 \<and>
         (\<exists>response_data. json r = Inr response_data \<and> has_candidates response_data = Inr True)"
  using assms
  by (auto simp: read_response_def and_then_def split: if_splits sum.splits)

lemma read_response_Rejected:
  assumes "read_response r = Inr (Rejected m)"
  shows "generation_error m"
  using assms
  by (auto simp: read_response_def and_then_def generation_error_def split: if_splits sum.splits)

lemma endpoint_fails_no_Candidate:
  assumes "endpoint_fails (Inr r)"
  shows "read_response r \<noteq> Inr (Candidate t)"
proof
  assume c: "read_response r = Inr (Candidate t)"
  from read_response_Candidate [OF c] obtain response_data
    where s: "status_code r = 200" and j: "json r = Inr response_data"
      and h: "has_candidates response_data = Inr True" by blast
  from has_candidates_True [OF h] s j assms show False
    by (simp add: endpoint_fails_def is_2xx_def)
qed

lemma send_prompt_fails:
  assumes "endpoint_fails (post e p)"
  shows "store (send_prompt e db ch input uid cid k p) = db \<and>
         (generation_error (reply (send_prompt e db ch input uid cid k p)) \<or>
          (\<exists>exc. reply (send_prompt e db ch input uid cid k p) =
             ''An unexpected error occurred: '' @ str_exc e exc))"
proof (cases "post e p")
  case (Inl exc)
  then show ?thesis by (auto simp: send_prompt_def Let_def)
next
  case (Inr r)
  with assms have f: "endpoint_fails (Inr r)" by simp
  show ?thesis
  proof (cases "read_response r")
    case (Inl exc)
    with Inr show ?thesis by (auto simp: send_prompt_def Let_def)
  next
    case rr: (Inr g)
    show ?thesis
    proof (cases g)
      case (Candidate t)
      with rr endpoint_fails_no_Candidate [OF f] show ?thesis by simp
    next
      case (Rejected m)
      with rr read_response_Rejected have "generation_error m" by simp
      with Rejected rr Inr show ?thesis by (simp add: send_prompt_def Let_def)
    qed
  qed
qed

text \<open>
  C4: when a character is found and the endpoint fails on whatever it is sent (the
  request raises, the status is outside 200..299, or the body of a 2xx response
  does not decode or holds no candidate), both programs leave the store as it was,
  return a message that starts \<^verbatim>\<open>An error occurred while generating content:\<close> or
  \<^verbatim>\<open>An unexpected error occurred:\<close>, and pair it with the session identifier: the
  caller's when one was given, a freshly drawn one otherwise.
\<close>


theorem failed_generation_stores_nothing:
  assumes "character_by_name db cname = Some ch"
      and "\<forall>p. endpoint_fails (post e p)"
      and "out = chat_with_character e db cname input uid cid \<or>
           out = chat_with_character2 e db cname input uid cid"
  shows "store out = db \<and>
         (generation_error (reply out) \<or>
          (\<exists>exc. reply out = ''An unexpected error occurred: '' @ str_exc e exc)) \<and>
         session out = Some (session_id e cid) \<and>
         (cid = None \<or> cid = Some [] \<longrightarrow> session out = Some (uuid4 e) \<and> uuid_calls out = 1) \<and>
         (\<forall>s. cid = Some s \<and> s \<noteq> [] \<longrightarrow> session out = Some s \<and> uuid_calls out = 0)"
proof -
  from assms(3) obtain p where
    o: "out = send_prompt e db ch input uid (session_id e cid) (if no_chat_id cid then 1 else 0) p"
    using assms(1) by (auto simp: chat_with_character_def chat_with_character2_def)
  from assms(2) have f: "endpoint_fails (post e p)" by blast
  from send_prompt_fails [OF f] o
  have a: "store out = db \<and>
         (generation_error (reply out) \<or>
          (\<exists>exc. reply out = ''An unexpected error occurred: '' @ str_exc e exc))"
    by simp
  from o have s: "session out = Some (session_id e cid)" by simp
  from o have u: "uuid_calls out = (if no_chat_id cid then 1 else 0)" by simp
  from a s u show ?thesis
    by (auto simp: session_id_def no_chat_id_def)
qed



theorem failed_generation_stores_nothing_witness:
  "character_by_name pirate_db ''Sarcastic Pirate'' = Some pirate \<and>
   (\<forall>p. endpoint_fails (post (stub_env (Inr unavailable)) p)) \<and>
   store (chat_with_character (stub_env (Inr unavailable)) pirate_db
     ''Sarcastic Pirate'' ''hi'' (Some 7) None) = pirate_db \<and>
   reply (chat_with_character (stub_env (Inr unavailable)) pirate_db
     ''Sarcastic Pirate'' ''hi'' (Some 7) None) =
     ''An error occurred while generating content: 503 - {}'' \<and>
   session (chat_with_character (stub_env (Inr unavailable)) pirate_db
     ''Sarcastic Pirate'' ''hi'' (Some 7) None) = Some (uuid4 (stub_env (Inr unavailable)))"
proof -
  have f: "\<forall>p. endpoint_fails (post (stub_env (Inr unavailable)) p)"
    by (simp add: stub_env_def endpoint_fails_def unavailable_def is_2xx_def)
  have r: "reply (chat_with_character (stub_env (Inr unavailable)) pirate_db
     ''Sarcastic Pirate'' ''hi'' (Some 7) None) =
     ''An error occurred while generating content: 503 - {}''"
    by (simp add: chat_with_character_def pirate_found send_prompt_def stub_env_def
          read_response_def unavailable_def and_then_def str_nat_503)
  from failed_generation_stores_nothing [OF pirate_found f,
      of "chat_with_character (stub_env (Inr unavailable)) pirate_db
            ''Sarcastic Pirate'' ''hi'' (Some 7) None" "''hi''" "Some 7" None]
    pirate_found f r
  show ?thesis by (simp add: session_id_def)
qed

section \<open>The transcript of a session\<close>

lemma session_conversations_mset:
  "mset (session_conversations db s) = mset (filter (\<lambda>conv. chat_id conv = Some s) (conversations db))"
  by (simp add: session_conversations_def)

lemma session_conversations_sorted:
  "sorted (map timestamp (session_conversations db s))"
  by (simp add: session_conversations_def)

lemma session_conversations_empty:
  "(session_conversations db s = []) = (\<forall>conv \<in> set (conversations db). chat_id conv \<noteq> Some s)"
proof -
  have "(session_conversations db s = []) = (mset (session_conversations db s) = {#})"
    by simp
  also have "\<dots> = (filter (\<lambda>conv. chat_id conv = Some s) (conversations db) = [])"
    by (simp only: session_conversations_mset mset_zero_iff)
  also have "\<dots> = (\<forall>conv \<in> set (conversations db). chat_id conv \<noteq> Some s)"
    by (simp add: filter_empty_conv)
  finally show ?thesis .
qed


lemma find_id_first:
  "find (\<lambda>ch. char_id ch = i) chs = Some c \<Longrightarrow>
   \<exists>front rest. chs = front @ c # rest \<and> char_id c = i \<and> i \<notin> set (map char_id front)"
proof (induction chs)
  case Nil
  then show ?case by simp
next
  case (Cons a chs)
  show ?case
  proof (cases "char_id a = i")
    case True
    with Cons.prems have "a = c" by simp
    with True have "a # chs = [] @ c # chs \<and> char_id c = i \<and> i \<notin> set (map char_id [])"
      by simp
    then show ?thesis by blast
  next
    case False
    with Cons.prems have "find (\<lambda>ch. char_id ch = i) chs = Some c" by simp
    from Cons.IH [OF this] obtain front rest
      where p: "chs = front @ c # rest" "char_id c = i" "i \<notin> set (map char_id front)"
      by blast
    with False have "a # chs = (a # front) @ c # rest \<and> char_id c = i \<and>
        i \<notin> set (map char_id (a # front))"
      by auto
    then show ?thesis by blast
  qed
qed

lemma find_id_None:
  "find (\<lambda>ch. char_id ch = i) chs = None \<longleftrightarrow> i \<notin> set (map char_id chs)"
  by (induction chs) auto

text \<open>
  C8: \<^verbatim>\<open>get_chat_history\<close> answers a missing or empty identifier with
  \<^verbatim>\<open>No chat ID provided.\<close> and an identifier that no stored turn carries with
  \<^verbatim>\<open>No chat history found for this ID.\<close>; it never fails. For a non-empty identifier
  that stored turns carry, it returns a transcript: a header with the name of the
  stored character whose id is the \<^verbatim>\<open>character_id\<close> of the earliest turn (the first
  such character of the table; ids are the primary key), or \<^verbatim>\<open>Unknown Character\<close>
  when no stored character has that id, then for each turn of the session, each
  once and in ascending order of the timestamps, the timestamp in brackets, the
  \<^verbatim>\<open>User:\<close> line and the \<^verbatim>\<open>Bot:\<close> line. The code treats the empty string as no
  identifier, here as in \<^verbatim>\<open>chat_with_character\<close>, which never stores it.
\<close>

theorem history_transcript:
  "get_chat_history strftime db None = ''No chat ID provided.'' \<and>
   get_chat_history strftime db (Some []) = ''No chat ID provided.'' \<and>
   (s \<noteq> [] \<and> (\<forall>conv \<in> set (conversations db). chat_id conv \<noteq> Some s) \<longrightarrow>
      get_chat_history strftime db (Some s) = ''No chat history found for this ID.'') \<and>
   (s \<noteq> [] \<and> (\<exists>conv \<in> set (conversations db). chat_id conv = Some s) \<longrightarrow>
      (\<exists>t ts cname.
         mset (t # ts) = mset (filter (\<lambda>conv. chat_id conv = Some s) (conversations db)) \<and>
         sorted (map timestamp (t # ts)) \<and>
         ((character_id t \<notin> set (map char_id (characters db)) \<and>
           cname = ''Unknown Character'') \<or>
          (\<exists>front ch rest.
             characters db = front @ ch # rest \<and>
             char_id ch = character_id t \<and>
             character_id t \<notin> set (map char_id front) \<and>
             cname = name ch)) \<and>
         get_chat_history strftime db (Some s) =
           ''Chat History with '' @ cname @ '' (ID: '' @ s @ ''):'' @ nl @ nl @
           concat (map (\<lambda>conv.
             ''['' @ strftime (timestamp conv) @ '']'' @ nl @
             ''User: '' @ str_opt (user_input conv) @ nl @
             ''Bot: '' @ bot_response conv @ nl @ nl) (t # ts))))"
proof (intro conjI impI)
  show "get_chat_history strftime db None = ''No chat ID provided.''"
    by (simp add: get_chat_history_def)
  show "get_chat_history strftime db (Some []) = ''No chat ID provided.''"
    by (simp add: get_chat_history_def)
next
  assume a: "s \<noteq> [] \<and> (\<forall>conv \<in> set (conversations db). chat_id conv \<noteq> Some s)"
  then have "session_conversations db s = []"
    by (simp add: session_conversations_empty)
  with a show "get_chat_history strftime db (Some s) = ''No chat history found for this ID.''"
    by (simp add: get_chat_history_def)
next
  assume a: "s \<noteq> [] \<and> (\<exists>conv \<in> set (conversations db). chat_id conv = Some s)"
  then have "session_conversations db s \<noteq> []"
    by (simp add: session_conversations_empty)
  then obtain t ts where c: "session_conversations db s = t # ts"
    by (cases "session_conversations db s") auto
  define cname where
    "cname = (case character_by_id db (character_id t) of
                None \<Rightarrow> ''Unknown Character'' | Some ch \<Rightarrow> name ch)"
  have m: "mset (t # ts) = mset (filter (\<lambda>conv. chat_id conv = Some s) (conversations db))"
    using session_conversations_mset [of db s] c by simp
  have o: "sorted (map timestamp (t # ts))"
    using session_conversations_sorted [of db s] c by simp
  have n: "(character_id t \<notin> set (map char_id (characters db)) \<and>
            cname = ''Unknown Character'') \<or>
           (\<exists>front ch rest.
              characters db = front @ ch # rest \<and>
              char_id ch = character_id t \<and>
              character_id t \<notin> set (map char_id front) \<and>
              cname = name ch)"
  proof (cases "character_by_id db (character_id t)")
    case None
    then have "character_id t \<notin> set (map char_id (characters db))"
      by (simp add: character_by_id_def find_id_None)
    moreover from None have "cname = ''Unknown Character''"
      by (simp add: cname_def)
    ultimately show ?thesis by blast
  next
    case (Some ch)
    then have "find (\<lambda>c. char_id c = character_id t) (characters db) = Some ch"
      by (simp add: character_by_id_def)
    from find_id_first [OF this] obtain front rest
      where "characters db = front @ ch # rest" "char_id ch = character_id t"
        "character_id t \<notin> set (map char_id front)"
      by blast
    moreover from Some have "cname = name ch"
      by (simp add: cname_def)
    ultimately show ?thesis by blast
  qed
  have h: "get_chat_history strftime db (Some s) =
           ''Chat History with '' @ cname @ '' (ID: '' @ s @ ''):'' @ nl @ nl @
           concat (map (\<lambda>conv.
             ''['' @ strftime (timestamp conv) @ '']'' @ nl @
             ''User: '' @ str_opt (user_input conv) @ nl @
             ''Bot: '' @ bot_response conv @ nl @ nl) (t # ts))"
  proof -
    have e: "history_entry strftime = (\<lambda>conv.
             ''['' @ strftime (timestamp conv) @ '']'' @ nl @
             ''User: '' @ str_opt (user_input conv) @ nl @
             ''Bot: '' @ bot_response conv @ nl @ nl)"
      by (rule ext) (simp add: history_entry_def)
    from a c show ?thesis
      by (simp add: get_chat_history_def history_header_def e cname_def)
  qed
  from m o n h show "\<exists>t ts cname.
         mset (t # ts) = mset (filter (\<lambda>conv. chat_id conv = Some s) (conversations db)) \<and>
         sorted (map timestamp (t # ts)) \<and>
         ((character_id t \<notin> set (map char_id (characters db)) \<and>
           cname = ''Unknown Character'') \<or>
          (\<exists>front ch rest.
             characters db = front @ ch # rest \<and>
             char_id ch = character_id t \<and>
             character_id t \<notin> set (map char_id front) \<and>
             cname = name ch)) \<and>
         get_chat_history strftime db (Some s) =
           ''Chat History with '' @ cname @ '' (ID: '' @ s @ ''):'' @ nl @ nl @
           concat (map (\<lambda>conv.
             ''['' @ strftime (timestamp conv) @ '']'' @ nl @
             ''User: '' @ str_opt (user_input conv) @ nl @
             ''Bot: '' @ bot_response conv @ nl @ nl) (t # ts))"
    by blast
qed

lemma str_nat_10: "str_nat 10 = ''10''"
  by (simp add: str_nat.simps)

lemma str_nat_20: "str_nat 20 = ''20''"
  by (simp add: str_nat.simps)

lemma only_turn:
  "mset (t # ts) = mset [x] \<Longrightarrow> t = x \<and> ts = []"
  by (simp add: add_mset_eq_single)

lemma first_with_id_2:
  "[pirate, sage] = front @ ch # rest \<Longrightarrow> char_id ch = 2 \<Longrightarrow> ch = sage"
  by (auto simp: Cons_eq_append_conv pirate_def)

lemma first_with_id_2_absent:
  "[pirate] = front @ ch # rest \<Longrightarrow> char_id ch \<noteq> 2"
  by (auto simp: Cons_eq_append_conv pirate_def)

lemma sage_entry:
  "''['' @ str_nat (timestamp turn_sage) @ '']'' @ nl @
   ''User: '' @ str_opt (user_input turn_sage) @ nl @
   ''Bot: '' @ bot_response turn_sage @ nl @ nl =
   ''[20]'' @ nl @ ''User: why'' @ nl @ ''Bot: Because.'' @ nl @ nl"
  by (simp add: turn_sage_def str_opt_def str_nat_20)

theorem history_transcript_witness:
  "Some ''zz'' \<notin> set (map chat_id (conversations history_db)) \<and>
   get_chat_history str_nat history_db (Some ''zz'') = ''No chat history found for this ID.'' \<and>
   Some ''s1'' \<in> set (map chat_id (conversations history_db)) \<and>
   get_chat_history str_nat history_db (Some ''s1'') =
     ''Chat History with Sarcastic Pirate (ID: s1):'' @ nl @ nl @
     ''[10]'' @ nl @ ''User: first'' @ nl @ ''Bot: Ahoy!'' @ nl @ nl @
     ''[20]'' @ nl @ ''User: second'' @ nl @ ''Bot: Arr.'' @ nl @ nl \<and>
   map name (characters sage_db) = [''Sarcastic Pirate'', ''Professor Sage''] \<and>
   Some ''s1'' \<in> set (map chat_id (conversations sage_db)) \<and>
   get_chat_history str_nat sage_db (Some ''s1'') =
     ''Chat History with Professor Sage (ID: s1):'' @ nl @ nl @
     ''[20]'' @ nl @ ''User: why'' @ nl @ ''Bot: Because.'' @ nl @ nl \<and>
   Some ''s1'' \<in> set (map chat_id (conversations orphan_db)) \<and>
   get_chat_history str_nat orphan_db (Some ''s1'') =
     ''Chat History with Unknown Character (ID: s1):'' @ nl @ nl @
     ''[20]'' @ nl @ ''User: why'' @ nl @ ''Bot: Because.'' @ nl @ nl"
proof -
  have n: "\<forall>conv \<in> set (conversations history_db). chat_id conv \<noteq> Some ''zz''"
    by (simp add: history_db_def turn_late_def turn_early_def)
  have c: "session_conversations history_db ''s1'' = [turn_early, turn_late]"
    by (simp add: session_conversations_def history_db_def turn_late_def turn_early_def)
  have g0: "get_chat_history str_nat history_db (Some ''s1'') =
      history_header history_db turn_early ''s1'' @
      history_entry str_nat turn_early @ history_entry str_nat turn_late"
    by (simp add: get_chat_history_def c)
  have hd: "history_header history_db turn_early ''s1'' =
      ''Chat History with Sarcastic Pirate (ID: s1):'' @ nl @ nl"
    by (simp add: history_header_def character_by_id_def history_db_def pirate_def turn_early_def)
  have e1: "history_entry str_nat turn_early =
      ''[10]'' @ nl @ ''User: first'' @ nl @ ''Bot: Ahoy!'' @ nl @ nl"
    by (simp add: history_entry_def turn_early_def str_opt_def str_nat_10)
  have e2: "history_entry str_nat turn_late =
      ''[20]'' @ nl @ ''User: second'' @ nl @ ''Bot: Arr.'' @ nl @ nl"
    by (simp add: history_entry_def turn_late_def str_opt_def str_nat_20)
  have g: "get_chat_history str_nat history_db (Some ''s1'') =
     ''Chat History with Sarcastic Pirate (ID: s1):'' @ nl @ nl @
     ''[10]'' @ nl @ ''User: first'' @ nl @ ''Bot: Ahoy!'' @ nl @ nl @
     ''[20]'' @ nl @ ''User: second'' @ nl @ ''Bot: Arr.'' @ nl @ nl"
    by (simp only: g0 hd e1 e2 append_assoc)
  from history_transcript [of str_nat history_db "''zz''"] n
  have z: "get_chat_history str_nat history_db (Some ''zz'') = ''No chat history found for this ID.''"
    by simp
  have n': "Some ''zz'' \<notin> set (map chat_id (conversations history_db))"
    by (simp add: history_db_def turn_late_def turn_early_def)
  have y': "Some ''s1'' \<in> set (map chat_id (conversations history_db))"
    by (simp add: history_db_def turn_late_def turn_early_def)
  have ns: "map name (characters sage_db) = [''Sarcastic Pirate'', ''Professor Sage'']"
    by (simp add: sage_db_def pirate_def sage_def)
  have ys: "Some ''s1'' \<in> set (map chat_id (conversations sage_db))"
    by (simp add: sage_db_def turn_sage_def)
  have gs: "get_chat_history str_nat sage_db (Some ''s1'') =
     ''Chat History with Professor Sage (ID: s1):'' @ nl @ nl @
     ''[20]'' @ nl @ ''User: why'' @ nl @ ''Bot: Because.'' @ nl @ nl"
  proof -
    have y: "''s1'' \<noteq> [] \<and> (\<exists>conv \<in> set (conversations sage_db). chat_id conv = Some ''s1'')"
      by (simp add: sage_db_def turn_sage_def)
    have f: "filter (\<lambda>conv. chat_id conv = Some ''s1'') (conversations sage_db) = [turn_sage]"
      by (simp add: sage_db_def turn_sage_def)
    from history_transcript [of str_nat sage_db "''s1''"] y
    obtain t ts cname where
      m: "mset (t # ts) = mset (filter (\<lambda>conv. chat_id conv = Some ''s1'') (conversations sage_db))"
      and d: "(character_id t \<notin> set (map char_id (characters sage_db)) \<and>
               cname = ''Unknown Character'') \<or>
              (\<exists>front ch rest.
                 characters sage_db = front @ ch # rest \<and>
                 char_id ch = character_id t \<and>
                 character_id t \<notin> set (map char_id front) \<and>
                 cname = name ch)"
      and h: "get_chat_history str_nat sage_db (Some ''s1'') =
           ''Chat History with '' @ cname @ '' (ID: '' @ ''s1'' @ ''):'' @ nl @ nl @
           concat (map (\<lambda>conv.
             ''['' @ str_nat (timestamp conv) @ '']'' @ nl @
             ''User: '' @ str_opt (user_input conv) @ nl @
             ''Bot: '' @ bot_response conv @ nl @ nl) (t # ts))"
      by blast
    from m f have t: "t = turn_sage \<and> ts = []"
      by (simp only: only_turn)
    have i: "character_id turn_sage = 2"
      by (simp add: turn_sage_def)
    have cs: "characters sage_db = [pirate, sage]"
      by (simp add: sage_db_def)
    have "2 \<in> set (map char_id [pirate, sage])"
      by (simp add: sage_def)
    with d t i cs have "\<exists>front ch rest. [pirate, sage] = front @ ch # rest \<and> char_id ch = 2 \<and>
        cname = name ch"
      by auto
    then have "cname = name sage"
      using first_with_id_2 by blast
    then have cn: "cname = ''Professor Sage''"
      by (simp add: sage_def)
    from h t have "get_chat_history str_nat sage_db (Some ''s1'') =
           ''Chat History with '' @ cname @ '' (ID: '' @ ''s1'' @ ''):'' @ nl @ nl @
           (''['' @ str_nat (timestamp turn_sage) @ '']'' @ nl @
             ''User: '' @ str_opt (user_input turn_sage) @ nl @
             ''Bot: '' @ bot_response turn_sage @ nl @ nl)"
      by simp
    then show ?thesis
      by (simp only: sage_entry cn) simp
  qed
  have yo: "Some ''s1'' \<in> set (map chat_id (conversations orphan_db))"
    by (simp add: orphan_db_def turn_sage_def)
  have go: "get_chat_history str_nat orphan_db (Some ''s1'') =
     ''Chat History with Unknown Character (ID: s1):'' @ nl @ nl @
     ''[20]'' @ nl @ ''User: why'' @ nl @ ''Bot: Because.'' @ nl @ nl"
  proof -
    have y: "''s1'' \<noteq> [] \<and> (\<exists>conv \<in> set (conversations orphan_db). chat_id conv = Some ''s1'')"
      by (simp add: orphan_db_def turn_sage_def)
    have f: "filter (\<lambda>conv. chat_id conv = Some ''s1'') (conversations orphan_db) = [turn_sage]"
      by (simp add: orphan_db_def turn_sage_def)
    from history_transcript [of str_nat orphan_db "''s1''"] y
    obtain t ts cname where
      m: "mset (t # ts) = mset (filter (\<lambda>conv. chat_id conv = Some ''s1'') (conversations orphan_db))"
      and d: "(character_id t \<notin> set (map char_id (characters orphan_db)) \<and>
               cname = ''Unknown Character'') \<or>
              (\<exists>front ch rest.
                 characters orphan_db = front @ ch # rest \<and>
                 char_id ch = character_id t \<and>
                 character_id t \<notin> set (map char_id front) \<and>
                 cname = name ch)"
      and h: "get_chat_history str_nat orphan_db (Some ''s1'') =
           ''Chat History with '' @ cname @ '' (ID: '' @ ''s1'' @ ''):'' @ nl @ nl @
           concat (map (\<lambda>conv.
             ''['' @ str_nat (timestamp conv) @ '']'' @ nl @
             ''User: '' @ str_opt (user_input conv) @ nl @
             ''Bot: '' @ bot_response conv @ nl @ nl) (t # ts))"
      by blast
    from m f have t: "t = turn_sage \<and> ts = []"
      by (simp only: only_turn)
    have i: "character_id turn_sage = 2"
      by (simp add: turn_sage_def)
    have cs: "characters orphan_db = [pirate]"
      by (simp add: orphan_db_def)
    from d t i cs first_with_id_2_absent have cn: "cname = ''Unknown Character''"
      by auto
    from h t have "get_chat_history str_nat orphan_db (Some ''s1'') =
           ''Chat History with '' @ cname @ '' (ID: '' @ ''s1'' @ ''):'' @ nl @ nl @
           (''['' @ str_nat (timestamp turn_sage) @ '']'' @ nl @
             ''User: '' @ str_opt (user_input turn_sage) @ nl @
             ''Bot: '' @ bot_response turn_sage @ nl @ nl)"
      by simp
    then show ?thesis
      by (simp only: sage_entry cn) simp
  qed
  from n' y' z g ns ys gs yo go show ?thesis by blast
qed


section \<open>The summary of the sessions\<close>

lemma set_joined:
  "set (joined db) =
     {(conv, ch). conv \<in> set (conversations db) \<and> ch \<in> set (characters db) \<and>
                  character_id conv = char_id ch}"
  by (auto simp: joined_def)

lemma set_map_filter_Some:
  "set (List.map_filter f xs) = {y. \<exists>x \<in> set xs. f x = Some y}"
  by (induction xs) (auto split: option.splits)

lemma concat_if_filter: "concat (map (\<lambda>x. if P x then [x] else []) xs) = filter P xs"
  by (induction xs) simp_all

lemma group_key_Some:
  "(group_key (conv, ch) = Some (s, n)) = (chat_id conv = Some s \<and> name ch = n)"
  by (auto simp: group_key_def split: option.splits)

lemma set_group_keys:
  "set (group_keys db) =
     {(s, n). \<exists>conv \<in> set (conversations db). turn_of db s n conv}"
proof -
  have "set (group_keys db) = {k. \<exists>p \<in> set (joined db). group_key p = Some k}"
    by (simp add: group_keys_def set_map_filter_Some)
  also have "\<dots> = {(s, n). \<exists>conv \<in> set (conversations db). turn_of db s n conv}"
    by (fastforce simp: set_joined group_key_Some turn_of_def)
  finally show ?thesis .
qed

lemma join_one:
  "distinct (map char_id chs) \<Longrightarrow>
   map fst (filter P (map (\<lambda>ch. (conv, ch)) (filter (\<lambda>ch. character_id conv = char_id ch) chs))) =
     (if \<exists>ch \<in> set chs. character_id conv = char_id ch \<and> P (conv, ch) then [conv] else [])"
proof (induction chs)
  case Nil
  show ?case by simp
next
  case (Cons a chs)
  then have d: "distinct (map char_id chs)" and n: "char_id a \<notin> char_id ` set chs" by simp_all
  show ?case
  proof (cases "character_id conv = char_id a")
    case True
    with n have "filter (\<lambda>ch. character_id conv = char_id ch) chs = []"
      by (auto simp: filter_empty_conv)
    with True n show ?thesis by auto
  next
    case False
    with Cons.IH [OF d] show ?thesis by simp
  qed
qed

lemma group_of_filter:
  assumes "distinct (map char_id (characters db))"
  shows "group_of db (s, n) = filter (turn_of db s n) (conversations db)"
proof -
  have "group_of db (s, n) =
      concat (map (\<lambda>conv. map fst (filter (\<lambda>p. group_key p = Some (s, n))
        (map (\<lambda>ch. (conv, ch)) (filter (\<lambda>ch. character_id conv = char_id ch) (characters db)))))
        (conversations db))"
    by (simp add: group_of_def joined_def filter_concat map_concat comp_def)
  also have "\<dots> = concat (map (\<lambda>conv. if turn_of db s n conv then [conv] else []) (conversations db))"
  proof -
    have "map fst (filter (\<lambda>p. group_key p = Some (s, n))
        (map (\<lambda>ch. (conv, ch)) (filter (\<lambda>ch. character_id conv = char_id ch) (characters db)))) =
        (if turn_of db s n conv then [conv] else [])" for conv
      unfolding join_one [OF assms]
      by (auto simp: group_key_Some turn_of_def)
    then show ?thesis by simp
  qed
  also have "\<dots> = filter (turn_of db s n) (conversations db)"
    by (rule concat_if_filter)
  finally show ?thesis .
qed

lemma row_key_summary [simp]: "row_key (summary_row db k) = k"
  by (simp add: row_key_def summary_row_def)

lemma mset_sessions_query:
  "mset (sessions_query db) = mset (map (summary_row db) (group_keys db))"
  by (simp add: sessions_query_def)

lemma keys_sessions_query:
  "mset (map row_key (sessions_query db)) = mset (group_keys db)"
proof -
  have "mset (map row_key (sessions_query db)) = image_mset row_key (mset (sessions_query db))"
    by simp
  also have "\<dots> = image_mset row_key (mset (map (summary_row db) (group_keys db)))"
    by (simp only: mset_sessions_query)
  also have "\<dots> = mset (group_keys db)"
    by (simp add: image_mset.compositionality comp_def)
  finally show ?thesis .
qed

lemma distinct_group_keys: "distinct (group_keys db)"
  by (simp add: group_keys_def)

lemma sessions_query_rows:
  "r \<in> set (sessions_query db) \<Longrightarrow> \<exists>k \<in> set (group_keys db). r = summary_row db k"
proof -
  assume "r \<in> set (sessions_query db)"
  then have "r \<in># mset (sessions_query db)" by simp
  then have "r \<in># mset (map (summary_row db) (group_keys db))"
    by (simp only: mset_sessions_query)
  then show ?thesis by auto
qed


text \<open>
  C5, as the code has it. The query groups by \<^verbatim>\<open>chat_id\<close> and by character name, so
  with the primary keys of the characters distinct the rows of \<^verbatim>\<open>get_all_chat_ids\<close>
  are, before the times are formatted: one row for each pair of a session
  identifier and a character name that some stored turn has, with the number of
  those turns as its count and the earliest of their timestamps as its start, the
  rows in descending order of the start.
\<close>

theorem sessions_summary:
  assumes "distinct (map char_id (characters db))"
  shows "distinct (map row_key (sessions_query db)) \<and>
         set (map row_key (sessions_query db)) =
           {(s, n). \<exists>conv \<in> set (conversations db). turn_of db s n conv} \<and>
         (\<forall>r \<in> set (sessions_query db).
            message_count r =
              length (filter (turn_of db (row_chat_id r) (character_name r)) (conversations db)) \<and>
            start_time r =
              Min (timestamp `
                {conv \<in> set (conversations db). turn_of db (row_chat_id r) (character_name r) conv})) \<and>
         sorted (rev (map start_time (sessions_query db)))"
proof (intro conjI ballI)
  show "distinct (map row_key (sessions_query db))"
    using keys_sessions_query [of db] distinct_group_keys [of db]
    by (metis mset_eq_imp_distinct_iff)
  show "set (map row_key (sessions_query db)) =
           {(s, n). \<exists>conv \<in> set (conversations db). turn_of db s n conv}"
    using keys_sessions_query [of db] set_group_keys [of db]
    by (metis mset_eq_setD)
  show "sorted (rev (map start_time (sessions_query db)))"
    by (simp add: sessions_query_def rev_map [symmetric])
next
  fix r assume "r \<in> set (sessions_query db)"
  then obtain k where r: "r = summary_row db k"
    using sessions_query_rows by blast
  obtain s n where k: "k = (s, n)" by (cases k)
  from r k have rk: "row_chat_id r = s" "character_name r = n"
    by (simp_all add: summary_row_def)
  from r k group_of_filter [OF assms, of s n]
  show "message_count r =
      length (filter (turn_of db (row_chat_id r) (character_name r)) (conversations db))"
    by (simp add: summary_row_def)
  from r k group_of_filter [OF assms, of s n]
  have "start_time r = Min (set (map timestamp (filter (turn_of db s n) (conversations db))))"
    by (simp add: summary_row_def)
  also have "set (map timestamp (filter (turn_of db s n) (conversations db))) =
      timestamp ` {conv \<in> set (conversations db). turn_of db s n conv}"
    by simp
  finally show "start_time r =
      Min (timestamp `
        {conv \<in> set (conversations db). turn_of db (row_chat_id r) (character_name r) conv})"
    by (simp only: rk)
qed

lemma joined_history_db: "joined history_db = [(turn_late, pirate), (turn_early, pirate)]"
  by (simp add: joined_def history_db_def turn_late_def turn_early_def pirate_def)

lemma keys_history_db: "group_keys history_db = [(''s1'', ''Sarcastic Pirate'')]"
  by (simp add: group_keys_def joined_history_db group_key_def turn_late_def turn_early_def
        pirate_def)

lemma row_history_db:
  "summary_row history_db (''s1'', ''Sarcastic Pirate'') =
     \<lparr>row_chat_id = ''s1'', character_name = ''Sarcastic Pirate'', start_time = 10,
      message_count = 2\<rparr>"
  by (simp add: summary_row_def group_of_def joined_history_db group_key_def turn_late_def
        turn_early_def pirate_def)


theorem sessions_summary_witness:
  "distinct (map char_id (characters history_db)) \<and>
   distinct (map row_key (sessions_query history_db)) \<and>
   sorted (rev (map start_time (sessions_query history_db))) \<and>
   sessions_query history_db =
     [\<lparr>row_chat_id = ''s1'', character_name = ''Sarcastic Pirate'', start_time = 10,
       message_count = 2\<rparr>] \<and>
   length (filter (turn_of history_db ''s1'' ''Sarcastic Pirate'') (conversations history_db)) = 2"
proof -
  have d: "distinct (map char_id (characters history_db))"
    by (simp add: history_db_def)
  have q: "sessions_query history_db =
     [\<lparr>row_chat_id = ''s1'', character_name = ''Sarcastic Pirate'', start_time = 10,
       message_count = 2\<rparr>]"
    by (simp add: sessions_query_def keys_history_db row_history_db)
  have r: "\<lparr>row_chat_id = ''s1'', character_name = ''Sarcastic Pirate'', start_time = 10,
       message_count = 2\<rparr> \<in> set (sessions_query history_db)"
    by (simp add: q)
  from sessions_summary [OF d] r
  have "message_count \<lparr>row_chat_id = ''s1'', character_name = ''Sarcastic Pirate'',
       start_time = 10, message_count = 2\<rparr> =
     length (filter (turn_of history_db ''s1'' ''Sarcastic Pirate'') (conversations history_db))"
    by fastforce
  then have c: "length (filter (turn_of history_db ''s1'' ''Sarcastic Pirate'')
      (conversations history_db)) = 2"
    by simp
  from sessions_summary [OF d] d q c show ?thesis by simp
qed

text \<open>
  C5 as stated fails: a session whose two turns are with two characters has two
  rows, each counting one turn.
\<close>

lemma joined_two_db: "joined two_db = [(turn_ab, pirate), (turn_sage, sage)]"
  by (simp add: joined_def two_db_def turn_ab_def turn_sage_def pirate_def sage_def)

lemma keys_two_db:
  "group_keys two_db = [(''s1'', ''Sarcastic Pirate''), (''s1'', ''Professor Sage'')]"
  by (simp add: group_keys_def joined_two_db group_key_def turn_ab_def turn_sage_def
        pirate_def sage_def)

lemma pirate_row_two_db:
  "summary_row two_db (''s1'', ''Sarcastic Pirate'') =
     \<lparr>row_chat_id = ''s1'', character_name = ''Sarcastic Pirate'', start_time = 10,
      message_count = 1\<rparr>"
  by (simp add: summary_row_def group_of_def joined_two_db group_key_def turn_ab_def
        turn_sage_def pirate_def sage_def)

lemma sage_row_two_db:
  "summary_row two_db (''s1'', ''Professor Sage'') =
     \<lparr>row_chat_id = ''s1'', character_name = ''Professor Sage'', start_time = 20,
      message_count = 1\<rparr>"
  by (simp add: summary_row_def group_of_def joined_two_db group_key_def turn_ab_def
        turn_sage_def pirate_def sage_def)


theorem session_with_two_characters:
  "length (filter (\<lambda>conv. chat_id conv = Some ''s1'') (conversations two_db)) = 2 \<and>
   sessions_query two_db =
     [\<lparr>row_chat_id = ''s1'', character_name = ''Professor Sage'', start_time = 20,
       message_count = 1\<rparr>,
      \<lparr>row_chat_id = ''s1'', character_name = ''Sarcastic Pirate'', start_time = 10,
       message_count = 1\<rparr>]"
proof -
  have l: "length (filter (\<lambda>conv. chat_id conv = Some ''s1'') (conversations two_db)) = 2"
    by (simp add: two_db_def turn_ab_def turn_sage_def)
  have q: "sessions_query two_db =
     [\<lparr>row_chat_id = ''s1'', character_name = ''Professor Sage'', start_time = 20,
       message_count = 1\<rparr>,
      \<lparr>row_chat_id = ''s1'', character_name = ''Sarcastic Pirate'', start_time = 10,
       message_count = 1\<rparr>]"
    by (simp add: sessions_query_def keys_two_db pirate_row_two_db sage_row_two_db)
  from l q show ?thesis by blast
qed

end
